theory Spec2Isabelle
  imports Main "HOL-Library.Sublist"
begin

section \<open>Values and exceptions\<close>

text \<open>
  A JavaScript string is a sequence of code units; the model writes it as a \<open>string\<close>,
  one list element per code unit, so that \<open>length\<close> is \<open>.length\<close> and \<open>take\<close>/\<open>drop\<close>
  cut where \<open>substring\<close> and \<open>slice\<close> cut.

  JavaScript may throw any value. The handlers of \<open>github.ts\<close> test
  \<open>error instanceof Error\<close>, so the model keeps the two kinds apart: an \<open>Error\<close>
  instance with its message, and any other thrown value.
\<close>

datatype thrown = Error string | NonError string

type_synonym 'a result = "thrown + 'a"

text \<open>
  The two exceptions \<open>fetchFullFileContent\<close> raises itself are \<open>Error\<close> instances that
  differ in their message only. The names are the specification's.
\<close>

definition NotAFile :: "string \<Rightarrow> thrown" where
  "NotAFile path = Error (''Expected a file but received a directory for path: '' @ path)"

definition UnreadableContent :: "string \<Rightarrow> thrown" where
  "UnreadableContent path = Error (''Unable to fetch file content as string for path: '' @ path)"

section \<open>The platform client\<close>

text \<open>
  \<open>response.data\<close> of \<open>octokit.rest.repos.getContent\<close>: a string (raw media type), an
  array (a directory listing, kept as the list of its entry names), or an object with a
  \<open>type\<close> field and an optional \<open>content\<close> field.
\<close>

datatype response_data =
    Text string
  | Listing "string list"
  | FileObject (obj_type: string) (obj_content: "string option")

record changed_file =
  filename :: string
  status :: string
  additions :: nat
  deletions :: nat
  changes :: nat
  patch :: "string option"

record comment =
  user_login :: "string option"
  body :: "string option"

type_synonym pull_request = string

text \<open>
  An authenticated \<open>Octokit\<close> instance, as the capabilities \<open>github.ts\<close> calls on it.
  Each takes the owner and the repository first; each may throw.
\<close>

record octokit =
  pulls_listFiles :: "string \<Rightarrow> string \<Rightarrow> nat \<Rightarrow> nat \<Rightarrow> changed_file list result"
  repos_getContent :: "string \<Rightarrow> string \<Rightarrow> string \<Rightarrow> response_data result"
  pulls_get :: "string \<Rightarrow> string \<Rightarrow> nat \<Rightarrow> pull_request result"
  issues_listComments :: "string \<Rightarrow> string \<Rightarrow> nat \<Rightarrow> comment list result"
  issues_createComment :: "string \<Rightarrow> string \<Rightarrow> nat \<Rightarrow> string \<Rightarrow> thrown option"

section \<open>fetchFullFileContent\<close>

text \<open>
  \<open>Buffer.from(s, "base64").toString("utf8")\<close> belongs to the runtime, not to the
  repository; it is the parameter \<open>b64\<close>. The test \<open>response.data.content\<close> is a
  truthiness test: an absent field and the empty string both fail it.
\<close>

definition truthy :: "string option \<Rightarrow> bool" where
  "truthy v = (case v of None \<Rightarrow> False | Some s \<Rightarrow> s \<noteq> [])"

definition fetchFullFileContent ::
  "(string \<Rightarrow> string) \<Rightarrow> octokit \<Rightarrow> string \<Rightarrow> string \<Rightarrow> string \<Rightarrow> string result" where
  "fetchFullFileContent b64 kit owner repo path =
     (case repos_getContent kit owner repo path of
        Inl e \<Rightarrow> Inl e
      | Inr data \<Rightarrow>
          (case data of
             Text s \<Rightarrow> Inr s
           | Listing _ \<Rightarrow> Inl (NotAFile path)
           | FileObject ty content \<Rightarrow>
               if ty = ''file'' \<and> truthy content then Inr (b64 (the content))
               else Inl (UnreadableContent path)))"

text \<open>The shapes of a response: plain text, and a directory listing.\<close>

definition is_plain_text :: "response_data \<Rightarrow> bool" where
  "is_plain_text d = (case d of Text _ \<Rightarrow> True | _ \<Rightarrow> False)"

definition is_directory :: "response_data \<Rightarrow> bool" where
  "is_directory d = (case d of Listing _ \<Rightarrow> True | _ \<Rightarrow> False)"

text \<open>
  A file object carrying an encoded body, in the specification's sense: the object is
  file-typed and its \<open>content\<close> field is present, whatever its length.
\<close>

definition carries_encoded_body :: "response_data \<Rightarrow> bool" where
  "carries_encoded_body d =
     (case d of FileObject ty content \<Rightarrow> ty = ''file'' \<and> content \<noteq> None | _ \<Rightarrow> False)"

text \<open>A client whose \<open>getContent\<close> answers every path with the same data.\<close>

definition kit_returning :: "response_data \<Rightarrow> octokit" where
  "kit_returning d =
     \<lparr> pulls_listFiles = (\<lambda>_ _ _ _. Inr []),
       repos_getContent = (\<lambda>_ _ _. Inr d),
       pulls_get = (\<lambda>_ _ _. Inr []),
       issues_listComments = (\<lambda>_ _ _. Inr []),
       issues_createComment = (\<lambda>_ _ _ _. None) \<rparr>"

section \<open>The conversation context of handlePullRequestCommentEvent\<close>

text \<open>
  \<open>Array.prototype.slice(start)\<close>: a negative start counts from the end and stops at
  the first element; a start beyond the length gives the empty array.
\<close>

definition slice :: "int \<Rightarrow> 'a list \<Rightarrow> 'a list" where
  "slice start xs =
     (let len = int (length xs);
          k = (if start < 0 then max (len + start) 0 else min start len)
      in drop (nat k) xs)"

text \<open>
  \<open>String.prototype.substring(start, end)\<close>: both indices are clamped to the length
  and swapped when \<open>start\<close> exceeds \<open>end\<close>.
\<close>

definition substring :: "nat \<Rightarrow> nat \<Rightarrow> string \<Rightarrow> string" where
  "substring start end s =
     (let a = min start (length s); b = min end (length s)
      in take (max a b - min a b) (drop (min a b) s))"

text \<open>\<open>x || d\<close> on an optional string: \<open>undefined\<close> and the empty string give \<open>d\<close>.\<close>

definition js_or :: "string option \<Rightarrow> string \<Rightarrow> string" where
  "js_or v d = (if truthy v then the v else d)"

text \<open>\<open>Array.prototype.join(sep)\<close>\<close>

fun join :: "string \<Rightarrow> string list \<Rightarrow> string" where
  "join sep [] = []"
| "join sep [x] = x"
| "join sep (x # y # ys) = x @ sep @ join sep (y # ys)"

text \<open>The constants of the arrow function passed to \<open>map\<close>, one definition each.\<close>

definition isBot :: "comment \<Rightarrow> bool" where
  "isBot c = (user_login c = Some ''pga-github-app'')"

definition entry_prefix :: "comment \<Rightarrow> string" where
  "entry_prefix c = (if isBot c then ''[BOT RESPONSE]'' else ''[USER]'')"

definition entry_username :: "comment \<Rightarrow> string" where
  "entry_username c = js_or (user_login c) ''unknown''"

definition entry_body :: "comment \<Rightarrow> string" where
  "entry_body c = js_or (map_option (substring 0 500) (body c)) []"

definition entry_ellipsis :: "comment \<Rightarrow> string" where
  "entry_ellipsis c =
     (case body c of
        None \<Rightarrow> []
      | Some b \<Rightarrow> if length b \<noteq> 0 \<and> length b > 500 then ''...'' else [])"

definition formatComment :: "comment \<Rightarrow> string" where
  "formatComment c =
     entry_prefix c @ '' '' @ entry_username c @ '': '' @ entry_body c @ entry_ellipsis c"

definition previousComments :: "comment list \<Rightarrow> string" where
  "previousComments comments =
     join [CHR 0x0A, CHR 0x0A] (map formatComment (slice (- 30) comments))"

section \<open>aggregateASTReport\<close>

text \<open>What \<open>console.log\<close> and \<open>console.error\<close> wrote, in order.\<close>

datatype log_entry = ConsoleLog string | ConsoleError string "thrown option"

text \<open>
  The two accumulators of the loop, and the console beside them. The function returns
  \<open>{ rawCode, astReport }\<close>; the console is its only other effect.
\<close>

record aggregation =
  rawCode :: string
  astReport :: string
  console :: "log_entry list"

text \<open>
  The signature has three parameters, \<open>owner\<close>, \<open>repo\<close> and \<open>changedFilesData\<close>: the
  line declaring \<open>octokit\<close> is a comment. Type annotations do not exist at run time, so
  the third parameter holds whatever the caller puts third. Two kinds of value matter:
  an array of changed-file records, which the annotation \<open>any[]\<close> announces, and a
  string, which is what both callers pass there. \<open>for ... of\<close> visits the records of an
  array and the characters of a string.
\<close>

datatype iterable = Files "changed_file list" | Chars string

datatype element = FileElement changed_file | CharElement char

definition elements :: "iterable \<Rightarrow> element list" where
  "elements v = (case v of Files fs \<Rightarrow> map FileElement fs | Chars s \<Rightarrow> map CharElement s)"

text \<open>
  How the template literal renders \<open>file.filename\<close>: the field of a record, and
  \<open>undefined\<close> for a character, which has no such property.
\<close>

definition filename_text :: "element \<Rightarrow> string" where
  "filename_text x = (case x of FileElement f \<Rightarrow> filename f | CharElement c \<Rightarrow> ''undefined'')"

text \<open>
  The \<open>try\<close> block starts by evaluating the call
  \<open>fetchFullFileContent(octokit, owner, repo, file.filename)\<close>. The name \<open>octokit\<close> is
  bound neither by a parameter nor by the module, so evaluating the first argument
  throws a \<open>ReferenceError\<close>, an \<open>Error\<close> instance, before \<open>fetchFullFileContent\<close> is
  entered. The two appends and the parse that follow in the block are never reached and
  have no counterpart here.
\<close>

definition octokit_is_not_defined :: thrown where
  "octokit_is_not_defined = Error ''octokit is not defined''"

definition aggregate_try :: "aggregation \<Rightarrow> element \<Rightarrow> aggregation result" where
  "aggregate_try st file = Inl octokit_is_not_defined"

text \<open>One iteration of the loop: the \<open>try\<close> block and its \<open>catch\<close>.\<close>

definition aggregate_file :: "aggregation \<Rightarrow> element \<Rightarrow> aggregation" where
  "aggregate_file st file =
     (case aggregate_try st file of
        Inr st1 \<Rightarrow> st1
      | Inl error \<Rightarrow>
          st\<lparr>console := console st @
               [ConsoleError (''Error processing file '' @ filename_text file @ '':'') (Some error)]\<rparr>)"

fun aggregate_loop :: "aggregation \<Rightarrow> element list \<Rightarrow> aggregation" where
  "aggregate_loop st [] = st"
| "aggregate_loop st (file # files) = aggregate_loop (aggregate_file st file) files"

text \<open>
  \<open>owner\<close> and \<open>repo\<close> are used in the unreachable part of the \<open>try\<close> block only, so
  the function does not depend on what they hold.
\<close>

definition aggregateASTReport :: "'o \<Rightarrow> 'r \<Rightarrow> iterable \<Rightarrow> aggregation" where
  "aggregateASTReport owner repo changedFilesData =
     aggregate_loop \<lparr>rawCode = [], astReport = [], console = []\<rparr> (elements changedFilesData)"

text \<open>
  Example data: a client serving two files and a directory, and a parser refusing one
  of the two texts.
\<close>

definition mk_file :: "string \<Rightarrow> changed_file" where
  "mk_file name =
     \<lparr>filename = name, status = ''modified'', additions = 1, deletions = 0, changes = 1,
      patch = None\<rparr>"

definition example_kit :: octokit where
  "example_kit =
     \<lparr> pulls_listFiles = (\<lambda>_ _ _ _. Inr [mk_file ''a.ts'', mk_file ''dir'', mk_file ''bad.ts'']),
       repos_getContent = (\<lambda>_ _ path.
          if path = ''a.ts'' then Inr (Text ''let a = 1;'')
          else if path = ''bad.ts'' then Inr (Text ''%%'')
          else if path = ''dir'' then Inr (Listing [''x''])
          else Inl (Error ''Not Found'')),
       pulls_get = (\<lambda>_ _ _. Inr ''PR''),
       issues_listComments = (\<lambda>_ _ _. Inr []),
       issues_createComment = (\<lambda>_ _ _ _. None) \<rparr>"

definition example_parse :: "string \<Rightarrow> string result" where
  "example_parse text = (if text = ''%%'' then Inl (Error ''parse failure'') else Inr (''(program)''))"

section \<open>The event handlers\<close>

text \<open>The fields of \<open>PRWebhookPayload\<close> the handlers read; the optional ones are options.\<close>

record payload =
  installation_id :: nat
  repository_owner_login :: string
  repository_name :: string
  pull_request_number :: "nat option"
  issue_number :: "nat option"
  comment_body :: "string option"

text \<open>
  The collaborators the handlers call besides the client: the GitHub App and the two
  generators of \<open>ai-service.js\<close>. Each is a function of its arguments and may throw.
\<close>

record services =
  getInstallationOctokit :: "nat \<Rightarrow> octokit result"
  generateCodeFeedback :: "changed_file list \<Rightarrow> string \<Rightarrow> string \<Rightarrow> string result"
  generateFollowUpResponse ::
    "pull_request \<Rightarrow> string \<Rightarrow> string \<Rightarrow> changed_file list \<Rightarrow> string \<Rightarrow> string \<Rightarrow> string result"

text \<open>
  What a handler did to the outside: the console lines, and every call of
  \<open>octokit.rest.issues.createComment\<close> it made (owner, repo, issue number, body),
  whether the call returned or threw.
\<close>

record effects =
  console_out :: "log_entry list"
  createComment_calls :: "(string \<times> string \<times> nat \<times> string) list"

definition no_effects :: effects where
  "no_effects = \<lparr>console_out = [], createComment_calls = []\<rparr>"

text \<open>Decimal rendering of a number inside a template literal.\<close>

fun show_nat :: "nat \<Rightarrow> string" where
  "show_nat n =
     (if n < 10 then [char_of (48 + n)] else show_nat (n div 10) @ [char_of (48 + n mod 10)])"

definition fetchChangedFilesData ::
  "octokit \<Rightarrow> string \<Rightarrow> string \<Rightarrow> nat \<Rightarrow> changed_file list result" where
  "fetchChangedFilesData kit owner repo pull_number =
     (case pulls_listFiles kit owner repo pull_number 100 of
        Inl e \<Rightarrow> Inl e
      | Inr files \<Rightarrow>
          Inr (map (\<lambda>file.
                 \<lparr>filename = filename file, status = status file, additions = additions file,
                  deletions = deletions file, changes = changes file, patch = patch file\<rparr>)
               files))"

definition postComment ::
  "octokit \<Rightarrow> string \<Rightarrow> string \<Rightarrow> nat \<Rightarrow> string \<Rightarrow> effects \<Rightarrow> unit result \<times> effects" where
  "postComment kit owner repo issue_no text eff =
     (let eff1 = eff\<lparr>createComment_calls :=
                       createComment_calls eff @ [(owner, repo, issue_no, text)]\<rparr>
      in case issues_createComment kit owner repo issue_no text of
           Some e \<Rightarrow> (Inl e, eff1)
         | None \<Rightarrow> (Inr (), eff1))"

text \<open>
  The \<open>catch\<close> block shared by both handlers: an \<open>Error\<close> instance has its message
  written to the console, any other thrown value is not logged, and the value caught is
  thrown again as it is.
\<close>

definition catch_and_rethrow :: "unit result \<times> effects \<Rightarrow> unit result \<times> effects" where
  "catch_and_rethrow outcome =
     (case outcome of
        (Inr u, eff) \<Rightarrow> (Inr u, eff)
      | (Inl (Error message), eff) \<Rightarrow>
          (Inl (Error message),
           eff\<lparr>console_out := console_out eff @ [ConsoleError (''Error handling PR event: '' @ message) None]\<rparr>)
      | (Inl (NonError v), eff) \<Rightarrow> (Inl (NonError v), eff))"

text \<open>
  The identifiers read from the payload before the \<open>try\<close>:
  \<open>payload.pull_request?.number ?? 0\<close>, \<open>payload.issue?.number ?? 0\<close> and
  \<open>payload.comment?.body ?? ''\<close>.
\<close>

definition pull_number_of :: "payload \<Rightarrow> nat" where
  "pull_number_of p = (case pull_request_number p of None \<Rightarrow> 0 | Some n \<Rightarrow> n)"

definition issue_number_of :: "payload \<Rightarrow> nat" where
  "issue_number_of p = (case issue_number p of None \<Rightarrow> 0 | Some n \<Rightarrow> n)"

definition userComment_of :: "payload \<Rightarrow> string" where
  "userComment_of p = (case comment_body p of None \<Rightarrow> [] | Some c \<Rightarrow> c)"

text \<open>
  The \<open>try\<close> block of \<open>handlePullRequestEvent\<close>. The call
  \<open>aggregateASTReport(octokit, owner, repo, changedFilesData)\<close> hands four arguments to
  three parameters: the client lands in \<open>owner\<close>, the owner in \<open>repo\<close>, the repository
  name in \<open>changedFilesData\<close>, and the list of changed files is dropped.
\<close>

definition handlePullRequestEvent_try ::
  "services \<Rightarrow> octokit \<Rightarrow> string \<Rightarrow> string \<Rightarrow> nat \<Rightarrow> effects \<Rightarrow> unit result \<times> effects" where
  "handlePullRequestEvent_try sv kit owner repo pull_number eff =
     (case fetchChangedFilesData kit owner repo pull_number of
        Inl e \<Rightarrow> (Inl e, eff)
      | Inr changedFilesData \<Rightarrow>
          (let agg = aggregateASTReport kit owner (Chars repo);
               eff1 = eff\<lparr>console_out := console_out eff @ console agg\<rparr>
           in case generateCodeFeedback sv changedFilesData (rawCode agg) (astReport agg) of
                Inl e \<Rightarrow> (Inl e, eff1)
              | Inr feedback \<Rightarrow>
                  (case postComment kit owner repo pull_number feedback eff1 of
                     (Inl e, eff2) \<Rightarrow> (Inl e, eff2)
                   | (Inr u, eff2) \<Rightarrow>
                       (Inr (),
                        eff2\<lparr>console_out := console_out eff2 @
                          [ConsoleLog (''Posted feedback comment on PR #'' @ show_nat pull_number)]\<rparr>))))"

text \<open>
  \<open>app.getInstallationOctokit\<close> is awaited before the \<open>try\<close>: when it throws, the
  \<open>catch\<close> block is not reached.
\<close>

definition handlePullRequestEvent :: "services \<Rightarrow> payload \<Rightarrow> unit result \<times> effects" where
  "handlePullRequestEvent sv p =
     (case getInstallationOctokit sv (installation_id p) of
        Inl e \<Rightarrow> (Inl e, no_effects)
      | Inr kit \<Rightarrow>
          catch_and_rethrow
            (handlePullRequestEvent_try sv kit (repository_owner_login p) (repository_name p)
               (pull_number_of p) no_effects))"

text \<open>
  The \<open>try\<close> block of \<open>handlePullRequestCommentEvent\<close>, with the same call of
  \<open>aggregateASTReport\<close>.
\<close>

definition handlePullRequestCommentEvent_try ::
  "services \<Rightarrow> octokit \<Rightarrow> string \<Rightarrow> string \<Rightarrow> nat \<Rightarrow> string \<Rightarrow> effects
     \<Rightarrow> unit result \<times> effects" where
  "handlePullRequestCommentEvent_try sv kit owner repo pull_number userComment eff =
     (case pulls_get kit owner repo pull_number of
        Inl e \<Rightarrow> (Inl e, eff)
      | Inr pullRequest \<Rightarrow>
     (case issues_listComments kit owner repo pull_number of
        Inl e \<Rightarrow> (Inl e, eff)
      | Inr comments \<Rightarrow>
     (case fetchChangedFilesData kit owner repo pull_number of
        Inl e \<Rightarrow> (Inl e, eff)
      | Inr changedFilesData \<Rightarrow>
          (let agg = aggregateASTReport kit owner (Chars repo);
               eff1 = eff\<lparr>console_out := console_out eff @ console agg\<rparr>
           in case generateFollowUpResponse sv pullRequest userComment
                     (previousComments comments) changedFilesData (rawCode agg) (astReport agg) of
                Inl e \<Rightarrow> (Inl e, eff1)
              | Inr followUpResponse \<Rightarrow>
                  (case postComment kit owner repo pull_number followUpResponse eff1 of
                     (Inl e, eff2) \<Rightarrow> (Inl e, eff2)
                   | (Inr u, eff2) \<Rightarrow>
                       (Inr (),
                        eff2\<lparr>console_out := console_out eff2 @
                          [ConsoleLog (''Posted follow up comment on PR #'' @ show_nat pull_number)]\<rparr>))))))"

definition handlePullRequestCommentEvent :: "services \<Rightarrow> payload \<Rightarrow> unit result \<times> effects" where
  "handlePullRequestCommentEvent sv p =
     (let eff0 = no_effects\<lparr>console_out := [ConsoleLog ''Handling a pull request comment event.'']\<rparr>
      in case getInstallationOctokit sv (installation_id p) of
           Inl e \<Rightarrow> (Inl e, eff0)
         | Inr kit \<Rightarrow>
             catch_and_rethrow
               (handlePullRequestCommentEvent_try sv kit (repository_owner_login p)
                  (repository_name p) (issue_number_of p) (userComment_of p) eff0))"

text \<open>
  The console lines the handlers' runs are described with: what the \<open>catch\<close> block
  writes for a caught value, and what the call of \<open>aggregateASTReport\<close> writes for a
  repository name.
\<close>

definition catch_lines :: "thrown \<Rightarrow> log_entry list" where
  "catch_lines e =
     (case e of
        Error message \<Rightarrow> [ConsoleError (''Error handling PR event: '' @ message) None]
      | NonError v \<Rightarrow> [])"

definition undefined_lines :: "string \<Rightarrow> log_entry list" where
  "undefined_lines repo =
     replicate (length repo)
       (ConsoleError ''Error processing file undefined:'' (Some (Error ''octokit is not defined'')))"

text \<open>
  Example data: a payload, services built from an access outcome and the outcome of
  both generators, and services whose generators answer with the two strings they were
  handed.
\<close>

definition example_payload :: payload where
  "example_payload =
     \<lparr>installation_id = 7, repository_owner_login = ''o'', repository_name = ''r'',
      pull_request_number = Some 12, issue_number = Some 12, comment_body = Some ''why?''\<rparr>"

definition example_services :: "octokit result \<Rightarrow> string result \<Rightarrow> services" where
  "example_services access generated =
     \<lparr> getInstallationOctokit = (\<lambda>_. access),
       generateCodeFeedback = (\<lambda>_ _ _. generated),
       generateFollowUpResponse = (\<lambda>_ _ _ _ _ _. generated) \<rparr>"

definition echo_services :: "octokit \<Rightarrow> services" where
  "echo_services kit =
     \<lparr> getInstallationOctokit = (\<lambda>_. Inr kit),
       generateCodeFeedback = (\<lambda>_ raw ast. Inr (''rawCode=<'' @ raw @ ''> astReport=<'' @ ast @ ''>'')),
       generateFollowUpResponse =
         (\<lambda>_ _ _ _ raw ast. Inr (''rawCode=<'' @ raw @ ''> astReport=<'' @ ast @ ''>'')) \<rparr>"

section \<open>Properties of the content resolver\<close>

lemma NotAFile_neq_UnreadableContent: "NotAFile p \<noteq> UnreadableContent q"
  by (simp add: NotAFile_def UnreadableContent_def)

text \<open>
  Which responses raise which exception. \<open>NotAFile\<close> is raised for arrays and nothing
  else. \<open>UnreadableContent\<close> is raised for the objects that are not file-typed, for
  those without a \<open>content\<close> field, and for those whose \<open>content\<close> is the empty string.
\<close>

lemma fetchFullFileContent_error_cases:
  assumes "repos_getContent kit owner repo path = Inr d"
  shows "((fetchFullFileContent b64 kit owner repo path = Inl (NotAFile path)) = is_directory d)
       \<and> ((fetchFullFileContent b64 kit owner repo path = Inl (UnreadableContent path))
           = (case d of
                FileObject ty content \<Rightarrow> ty \<noteq> ''file'' \<or> content = None \<or> content = Some []
              | _ \<Rightarrow> False))"
  using assms NotAFile_neq_UnreadableContent [of path path]
  by (auto simp: fetchFullFileContent_def is_directory_def truthy_def
        split: response_data.splits option.splits)

text \<open>
  C6 at a zero-byte file. The response is a file-typed object whose \<open>content\<close> field
  is present and holds the empty string: it is not plain text, not a directory, and it
  carries an encoded body, the encoding of no bytes. \<open>UnreadableContent\<close> is raised all
  the same, for every decoder.
\<close>

theorem zero_byte_file_unreadable:
  "carries_encoded_body (FileObject ''file'' (Some []))
   \<and> \<not> is_plain_text (FileObject ''file'' (Some []))
   \<and> \<not> is_directory (FileObject ''file'' (Some []))
   \<and> repos_getContent (kit_returning (FileObject ''file'' (Some []))) owner repo path
       = Inr (FileObject ''file'' (Some []))
   \<and> fetchFullFileContent b64 (kit_returning (FileObject ''file'' (Some []))) owner repo path
       = Inl (UnreadableContent path)"
  by (simp add: carries_encoded_body_def is_plain_text_def is_directory_def kit_returning_def
        fetchFullFileContent_def truthy_def)

text \<open>
  C10. A file-typed object whose \<open>content\<close> is the empty string makes
  \<open>fetchFullFileContent\<close> raise \<open>UnreadableContent\<close>; the empty text is not returned.
\<close>

theorem fetchFullFileContent_empty_content:
  assumes "repos_getContent kit owner repo path = Inr (FileObject ''file'' (Some []))"
  shows "fetchFullFileContent b64 kit owner repo path = Inl (UnreadableContent path)
       \<and> fetchFullFileContent b64 kit owner repo path \<noteq> Inr []"
  using assms by (simp add: fetchFullFileContent_def truthy_def)

theorem fetchFullFileContent_empty_content_witness:
  "fetchFullFileContent id (kit_returning (FileObject ''file'' (Some []))) ''o'' ''r'' ''empty.txt''
     = Inl (UnreadableContent ''empty.txt'')"
  using fetchFullFileContent_empty_content
    [of "kit_returning (FileObject ''file'' (Some []))" "''o''" "''r''" "''empty.txt''" id]
  by (simp add: kit_returning_def)

text \<open>
  For a file-typed object with a non-empty \<open>content\<close> the resolver returns what the
  runtime's decoder makes of it, so on such responses the resolver inverts an encoding
  exactly when the decoder does.
\<close>

lemma fetchFullFileContent_decodes:
  assumes "repos_getContent kit owner repo path = Inr (FileObject ''file'' (Some content))"
    and "content \<noteq> []"
  shows "fetchFullFileContent b64 kit owner repo path = Inr (b64 content)"
  using assms by (simp add: fetchFullFileContent_def truthy_def)

text \<open>
  C7 at the empty text. The base64 encoding of the empty text is the empty string, and
  a zero-byte file comes back as a file-typed object with \<open>content\<close> the empty string.
  The resolver does not return the empty text for it, whatever the decoder: it raises
  \<open>UnreadableContent\<close>. The same file requested as raw text is returned as the empty
  string by the first branch.
\<close>

theorem zero_byte_file_round_trip:
  "fetchFullFileContent b64 (kit_returning (FileObject ''file'' (Some []))) owner repo path
     = Inl (UnreadableContent path)
   \<and> fetchFullFileContent b64 (kit_returning (Text [])) owner repo path = Inr []"
  by (simp add: fetchFullFileContent_def kit_returning_def truthy_def)

section \<open>Properties of the conversation context\<close>

lemma slice_negative: "0 < k \<Longrightarrow> slice (- int k) xs = drop (length xs - k) xs"
  by (simp add: slice_def Let_def max_def nat_diff_distrib')

lemma substring_from_0: "substring 0 n s = take n s"
  by (cases "n \<le> length s") (simp_all add: substring_def Let_def min_def)

lemma join_Cons: "join sep (x # xs) = x @ concat (map (\<lambda>y. sep @ y) xs)"
  by (induction xs arbitrary: x) simp_all

lemma join_map:
  "join sep (map f xs)
     = (case xs of [] \<Rightarrow> [] | x # rest \<Rightarrow> f x @ concat (map (\<lambda>y. sep @ f y) rest))"
  by (cases xs) (simp_all add: join_Cons comp_def)

text \<open>
  C4. For a comment list of length \<open>n\<close>, the window is the last \<open>min n 30\<close> comments
  in the order of the list. The transcript is empty when the window is; otherwise it
  is the rendered entry of the oldest comment of the window, followed, for each later
  comment of the window in turn, by two newlines and that comment's rendered entry.
\<close>

theorem previousComments_window:
  "previousComments cs
     = (case drop (length cs - min (length cs) 30) cs of
          [] \<Rightarrow> []
        | oldest # later \<Rightarrow>
            formatComment oldest
              @ concat (map (\<lambda>c. [CHR 0x0A, CHR 0x0A] @ formatComment c) later))
   \<and> length (drop (length cs - min (length cs) 30) cs) = min (length cs) 30"
proof -
  have "length cs - min (length cs) 30 = length cs - 30"
    by simp
  then have window: "slice (- 30) cs = drop (length cs - min (length cs) 30) cs"
    using slice_negative [of 30 cs] by simp
  have "previousComments cs
     = (case drop (length cs - min (length cs) 30) cs of
          [] \<Rightarrow> []
        | oldest # later \<Rightarrow>
            formatComment oldest
              @ concat (map (\<lambda>c. [CHR 0x0A, CHR 0x0A] @ formatComment c) later))"
    unfolding previousComments_def window by (rule join_map)
  then show ?thesis by simp
qed

text \<open>
  C5. In every rendered entry the body is the first 500 characters of the original
  body (nothing when the body is absent), so at most 500 characters long, and the
  marker \<open>...\<close> follows it exactly when the original body is longer than 500 characters.
\<close>

theorem entry_body_truncation:
  "formatComment c
     = entry_prefix c @ '' '' @ entry_username c @ '': '' @ entry_body c @ entry_ellipsis c
   \<and> entry_body c = (case body c of None \<Rightarrow> [] | Some b \<Rightarrow> take 500 b)
   \<and> length (entry_body c) \<le> 500
   \<and> entry_ellipsis c = (if (\<exists>b. body c = Some b \<and> 500 < length b) then ''...'' else [])"
proof -
  have b: "entry_body c = (case body c of None \<Rightarrow> [] | Some b \<Rightarrow> take 500 b)"
    by (cases "body c") (simp_all add: entry_body_def js_or_def truthy_def substring_from_0)
  have "length (entry_body c) \<le> 500"
    unfolding b by (cases "body c") simp_all
  moreover have "entry_ellipsis c = (if (\<exists>b. body c = Some b \<and> 500 < length b) then ''...'' else [])"
    by (cases "body c") (simp_all add: entry_ellipsis_def)
  ultimately show ?thesis
    using b by (simp add: formatComment_def)
qed

text \<open>
  C8. A rendered entry starts with \<open>[BOT RESPONSE]\<close> exactly when the author's login
  is the bot's, and with \<open>[USER]\<close> in every other case, an absent author included.
\<close>

theorem entry_role_label:
  "prefix ''[BOT RESPONSE] '' (formatComment c) = (user_login c = Some ''pga-github-app'')
   \<and> prefix ''[USER] '' (formatComment c) = (user_login c \<noteq> Some ''pga-github-app'')
   \<and> prefix ''[USER] '' (formatComment (c\<lparr>user_login := None\<rparr>))"
  by (simp add: formatComment_def entry_prefix_def isBot_def)

section \<open>Properties of the aggregation\<close>

lemma aggregate_file_fields:
  "rawCode (aggregate_file st x) = rawCode st"
  "astReport (aggregate_file st x) = astReport st"
  "console (aggregate_file st x)
     = console st @ [ConsoleError (''Error processing file '' @ filename_text x @ '':'')
                       (Some (Error ''octokit is not defined''))]"
  by (simp_all add: aggregate_file_def aggregate_try_def octokit_is_not_defined_def)

lemma aggregate_loop_fields:
  "rawCode (aggregate_loop st xs) = rawCode st"
  "astReport (aggregate_loop st xs) = astReport st"
  "console (aggregate_loop st xs)
     = console st @ map (\<lambda>x. ConsoleError (''Error processing file '' @ filename_text x @ '':'')
                              (Some (Error ''octokit is not defined''))) xs"
  by (induction xs arbitrary: st) (simp_all add: aggregate_file_fields)

lemma aggregateASTReport_of_string:
  "aggregateASTReport owner repo (Chars s)
     = \<lparr>rawCode = [], astReport = [], console = undefined_lines s\<rparr>"
proof -
  have "map (\<lambda>x. ConsoleError (''Error processing file '' @ filename_text x @ '':'')
                   (Some (Error ''octokit is not defined''))) (map CharElement s)
      = undefined_lines s"
    by (simp add: undefined_lines_def filename_text_def comp_def map_replicate_const)
  then show ?thesis
    by (simp add: aggregateASTReport_def elements_def aggregate_loop_fields)
qed

lemma aggregateASTReport_of_files:
  "aggregateASTReport owner repo (Files fs)
     = \<lparr>rawCode = [], astReport = [],
        console = map (\<lambda>f. ConsoleError (''Error processing file '' @ filename f @ '':'')
                              (Some (Error ''octokit is not defined''))) fs\<rparr>"
  by (simp add: aggregateASTReport_def elements_def aggregate_loop_fields filename_text_def
        comp_def)

lemma show_nat_12: "show_nat 12 = ''12''"
  by code_simp

text \<open>
  C1 at a list of two files, one that the platform serves and the parser accepts, and
  one that is a directory. Called with that list, the aggregation returns the empty
  string twice and logs a \<open>ReferenceError\<close> for each file: the section of the good file
  is in neither string. Called as the handlers call it, for a pull request whose changed
  files include both, it iterates over the repository name instead: the generator is
  handed two empty strings, and the console names the file \<open>undefined\<close>.
\<close>

theorem aggregateASTReport_drops_good_file:
  "fetchFullFileContent id example_kit ''o'' ''r'' ''a.ts'' = Inr ''let a = 1;''
   \<and> example_parse ''let a = 1;'' = Inr ''(program)''
   \<and> fetchFullFileContent id example_kit ''o'' ''r'' ''dir'' = Inl (NotAFile ''dir'')
   \<and> aggregateASTReport ''o'' ''r'' (Files [mk_file ''a.ts'', mk_file ''dir''])
       = \<lparr>rawCode = [], astReport = [],
          console =
            [ConsoleError ''Error processing file a.ts:'' (Some (Error ''octokit is not defined'')),
             ConsoleError ''Error processing file dir:'' (Some (Error ''octokit is not defined''))]\<rparr>
   \<and> handlePullRequestEvent (echo_services example_kit) example_payload
       = (Inr (),
          \<lparr>console_out =
             [ConsoleError ''Error processing file undefined:''
                (Some (Error ''octokit is not defined'')),
              ConsoleLog ''Posted feedback comment on PR #12''],
           createComment_calls = [(''o'', ''r'', 12, ''rawCode=<> astReport=<>'')]\<rparr>)"
  by (simp add: fetchFullFileContent_def example_kit_def example_parse_def mk_file_def
        aggregateASTReport_of_files aggregateASTReport_of_string undefined_lines_def
        handlePullRequestEvent_def handlePullRequestEvent_try_def echo_services_def
        example_payload_def fetchChangedFilesData_def postComment_def catch_and_rethrow_def
        no_effects_def pull_number_of_def Let_def show_nat_12 del: show_nat.simps)

text \<open>
  C2. Whatever reaches the third parameter, both strings come back empty: no section is
  written for any file, so the strings show no file of the input, in any order.
\<close>

theorem aggregateASTReport_writes_no_section:
  "rawCode (aggregateASTReport owner repo changedFilesData) = []
   \<and> astReport (aggregateASTReport owner repo changedFilesData) = []
   \<and> length (console (aggregateASTReport owner repo changedFilesData))
       = length (elements changedFilesData)"
  by (simp add: aggregateASTReport_def aggregate_loop_fields)

text \<open>
  C9 at a file that the platform serves and the parser refuses. The aggregation of the
  list holding that file returns an empty \<open>rawCode\<close>: the file's section is not in it.
\<close>

theorem aggregateASTReport_parse_failure_file:
  "fetchFullFileContent id example_kit ''o'' ''r'' ''bad.ts'' = Inr ''%%''
   \<and> example_parse ''%%'' = Inl (Error ''parse failure'')
   \<and> aggregateASTReport ''o'' ''r'' (Files [mk_file ''bad.ts''])
       = \<lparr>rawCode = [], astReport = [],
          console =
            [ConsoleError ''Error processing file bad.ts:''
               (Some (Error ''octokit is not defined''))]\<rparr>"
  by (simp add: fetchFullFileContent_def example_kit_def example_parse_def mk_file_def
        aggregateASTReport_of_files)

section \<open>Properties of the event handlers\<close>

lemma fetchChangedFilesData_listFiles:
  "fetchChangedFilesData kit owner repo n = pulls_listFiles kit owner repo n 100"
proof -
  have "map (\<lambda>file::changed_file.
               \<lparr>filename = filename file, status = status file, additions = additions file,
                deletions = deletions file, changes = changes file, patch = patch file\<rparr>) files
        = files" for files
    by (induction files) simp_all
  then show ?thesis
    by (simp add: fetchChangedFilesData_def split: sum.splits)
qed

lemma catch_and_rethrow_raises:
  "catch_and_rethrow (Inl e, eff) = (Inl e, eff\<lparr>console_out := console_out eff @ catch_lines e\<rparr>)"
  by (cases e) (simp_all add: catch_and_rethrow_def catch_lines_def)

lemma catch_and_rethrow_returns: "catch_and_rethrow (Inr u, eff) = (Inr u, eff)"
  by (simp add: catch_and_rethrow_def)

text \<open>
  C3, as the code has it: the outcome of each handler, by the outcomes of the calls it
  makes, in the order it makes them. The first call that throws ends the handler, and
  what the handler raises is the value that call threw. \<open>createComment\<close> is called
  once, after the generator has returned, and not at all when the generator or an
  earlier call throws. The \<open>catch\<close> block writes one line for an \<open>Error\<close> instance and
  none for any other thrown value; when \<open>getInstallationOctokit\<close> throws, the \<open>catch\<close>
  block is not reached and nothing is written for the exception.
\<close>

theorem handlers_failure_policy:
  "(handlePullRequestEvent sv p =
     (case getInstallationOctokit sv (installation_id p) of
        Inl e \<Rightarrow> (Inl e, \<lparr>console_out = [], createComment_calls = []\<rparr>)
      | Inr kit \<Rightarrow>
          (case pulls_listFiles kit (repository_owner_login p) (repository_name p)
                  (case pull_request_number p of None \<Rightarrow> 0 | Some n \<Rightarrow> n) 100 of
             Inl e \<Rightarrow> (Inl e, \<lparr>console_out = catch_lines e, createComment_calls = []\<rparr>)
           | Inr files \<Rightarrow>
               (case generateCodeFeedback sv files [] [] of
                  Inl e \<Rightarrow>
                    (Inl e,
                     \<lparr>console_out = undefined_lines (repository_name p) @ catch_lines e,
                      createComment_calls = []\<rparr>)
                | Inr feedback \<Rightarrow>
                    (case issues_createComment kit (repository_owner_login p) (repository_name p)
                            (case pull_request_number p of None \<Rightarrow> 0 | Some n \<Rightarrow> n) feedback of
                       Some e \<Rightarrow>
                         (Inl e,
                          \<lparr>console_out = undefined_lines (repository_name p) @ catch_lines e,
                           createComment_calls =
                             [(repository_owner_login p, repository_name p,
                               (case pull_request_number p of None \<Rightarrow> 0 | Some n \<Rightarrow> n),
                               feedback)]\<rparr>)
                     | None \<Rightarrow>
                         (Inr (),
                          \<lparr>console_out = undefined_lines (repository_name p) @
                             [ConsoleLog (''Posted feedback comment on PR #'' @
                                show_nat (case pull_request_number p of None \<Rightarrow> 0 | Some n \<Rightarrow> n))],
                           createComment_calls =
                             [(repository_owner_login p, repository_name p,
                               (case pull_request_number p of None \<Rightarrow> 0 | Some n \<Rightarrow> n),
                               feedback)]\<rparr>))))))
   \<and> (handlePullRequestCommentEvent sv p =
     (case getInstallationOctokit sv (installation_id p) of
        Inl e \<Rightarrow>
          (Inl e,
           \<lparr>console_out = [ConsoleLog ''Handling a pull request comment event.''],
            createComment_calls = []\<rparr>)
      | Inr kit \<Rightarrow>
     (case pulls_get kit (repository_owner_login p) (repository_name p)
             (case issue_number p of None \<Rightarrow> 0 | Some n \<Rightarrow> n) of
        Inl e \<Rightarrow>
          (Inl e,
           \<lparr>console_out = ConsoleLog ''Handling a pull request comment event.'' # catch_lines e,
            createComment_calls = []\<rparr>)
      | Inr pullRequest \<Rightarrow>
     (case issues_listComments kit (repository_owner_login p) (repository_name p)
             (case issue_number p of None \<Rightarrow> 0 | Some n \<Rightarrow> n) of
        Inl e \<Rightarrow>
          (Inl e,
           \<lparr>console_out = ConsoleLog ''Handling a pull request comment event.'' # catch_lines e,
            createComment_calls = []\<rparr>)
      | Inr comments \<Rightarrow>
     (case pulls_listFiles kit (repository_owner_login p) (repository_name p)
             (case issue_number p of None \<Rightarrow> 0 | Some n \<Rightarrow> n) 100 of
        Inl e \<Rightarrow>
          (Inl e,
           \<lparr>console_out = ConsoleLog ''Handling a pull request comment event.'' # catch_lines e,
            createComment_calls = []\<rparr>)
      | Inr files \<Rightarrow>
     (case generateFollowUpResponse sv pullRequest
             (case comment_body p of None \<Rightarrow> [] | Some c \<Rightarrow> c)
             (previousComments comments) files [] [] of
        Inl e \<Rightarrow>
          (Inl e,
           \<lparr>console_out = ConsoleLog ''Handling a pull request comment event.''
              # undefined_lines (repository_name p) @ catch_lines e,
            createComment_calls = []\<rparr>)
      | Inr followUpResponse \<Rightarrow>
     (case issues_createComment kit (repository_owner_login p) (repository_name p)
             (case issue_number p of None \<Rightarrow> 0 | Some n \<Rightarrow> n) followUpResponse of
        Some e \<Rightarrow>
          (Inl e,
           \<lparr>console_out = ConsoleLog ''Handling a pull request comment event.''
              # undefined_lines (repository_name p) @ catch_lines e,
            createComment_calls =
              [(repository_owner_login p, repository_name p,
                (case issue_number p of None \<Rightarrow> 0 | Some n \<Rightarrow> n), followUpResponse)]\<rparr>)
      | None \<Rightarrow>
          (Inr (),
           \<lparr>console_out = ConsoleLog ''Handling a pull request comment event.''
              # undefined_lines (repository_name p) @
              [ConsoleLog (''Posted follow up comment on PR #'' @
                 show_nat (case issue_number p of None \<Rightarrow> 0 | Some n \<Rightarrow> n))],
            createComment_calls =
              [(repository_owner_login p, repository_name p,
                (case issue_number p of None \<Rightarrow> 0 | Some n \<Rightarrow> n), followUpResponse)]\<rparr>))))))))"
  apply (rule conjI)
  subgoal
    by (simp add: handlePullRequestEvent_def handlePullRequestEvent_try_def
        fetchChangedFilesData_listFiles aggregateASTReport_of_string postComment_def
        catch_and_rethrow_raises catch_and_rethrow_returns no_effects_def pull_number_of_def
        Let_def
        split: sum.splits option.splits)
  subgoal
    by (simp add: handlePullRequestCommentEvent_def handlePullRequestCommentEvent_try_def
        fetchChangedFilesData_listFiles aggregateASTReport_of_string postComment_def
        catch_and_rethrow_raises catch_and_rethrow_returns no_effects_def issue_number_of_def
        userComment_of_def Let_def
        split: sum.splits option.splits)
  done

text \<open>
  Not every exception is logged. In the run below the generator throws a value that is
  not an \<open>Error\<close> instance: the handler raises it, and the console holds the line of the
  aggregation only.
\<close>

theorem unlogged_exception_counterexample:
  "handlePullRequestEvent
     (example_services (Inr example_kit) (Inl (NonError ''timeout''))) example_payload
   = (Inl (NonError ''timeout''),
      \<lparr>console_out =
         [ConsoleError ''Error processing file undefined:''
            (Some (Error ''octokit is not defined''))],
       createComment_calls = []\<rparr>)"
  by (simp add: handlePullRequestEvent_def handlePullRequestEvent_try_def example_services_def
        example_payload_def example_kit_def fetchChangedFilesData_def
        aggregateASTReport_of_string undefined_lines_def catch_and_rethrow_def no_effects_def
        pull_number_of_def Let_def)

end
